theory Spec2Isabelle
  imports Main "HOL-Library.Word" "HOL-Library.Signed_Division"
begin

unbundle bit_operations_syntax

section \<open>C integer types and arithmetic\<close>

text \<open>
  The layer is the file \<^verbatim>\<open>src/runtime/async_runtime/c_runtime/syscalls.c\<close>.
  Its integers are machine integers: \<^verbatim>\<open>int\<close> and \<^verbatim>\<open>DWORD\<close> have 32 bits,
  \<^verbatim>\<open>int64_t\<close>, \<^verbatim>\<open>long long\<close>, \<^verbatim>\<open>LONGLONG\<close> and \<^verbatim>\<open>ULONGLONG\<close> have 64 bits,
  and on the POSIX builds (LP64) \<^verbatim>\<open>long\<close> and \<^verbatim>\<open>time_t\<close> have 64 bits.
  They are words; \<open>+\<close> and \<open>*\<close> wrap around, \<open>sint\<close> reads a word as a signed
  value and \<open>uint\<close> as an unsigned one.
\<close>

type_synonym c_int = "32 word"
type_synonym c_long = "64 word"
type_synonym int64_t = "64 word"
type_synonym DWORD = "32 word"
type_synonym BOOL = "32 word"

text \<open>C's \<^verbatim>\<open>/\<close> and \<^verbatim>\<open>%\<close> on signed operands truncate towards zero.\<close>

definition c_div :: "'a::len word \<Rightarrow> 'a word \<Rightarrow> 'a word" where
  "c_div a b = word_of_int (sint a sdiv sint b)"

definition c_mod :: "'a::len word \<Rightarrow> 'a word \<Rightarrow> 'a word" where
  "c_mod a b = word_of_int (sint a smod sint b)"

text \<open>
  A signed division whose divisor is not a constant traps when the divisor is zero and
  when the quotient is not representable; \<open>None\<close> is the trap.
\<close>

definition c_div_checked :: "int64_t \<Rightarrow> int64_t \<Rightarrow> int64_t option" where
  "c_div_checked a b =
     (if b = 0 \<or> (sint a = - (2 ^ 63) \<and> sint b = - 1) then None else Some (c_div a b))"

section \<open>Data passed across the system-call boundary\<close>

record timespec =
  tv_sec :: c_long
  tv_nsec :: c_long

datatype clockid_t = CLOCK_MONOTONIC | CLOCK_PROCESS_CPUTIME_ID

datatype sysconf_name = SC_NPROCESSORS_ONLN

record FILETIME =
  dwLowDateTime :: DWORD
  dwHighDateTime :: DWORD

text \<open>
  \<^verbatim>\<open>ULARGE_INTEGER\<close> is a union: the 64-bit \<^verbatim>\<open>QuadPart\<close> overlays the two 32-bit
  halves \<^verbatim>\<open>LowPart\<close> and \<^verbatim>\<open>HighPart\<close>.
\<close>

record ULARGE_INTEGER =
  LowPart :: DWORD
  HighPart :: DWORD

definition QuadPart :: "ULARGE_INTEGER \<Rightarrow> 64 word" where
  "QuadPart u = push_bit 32 (ucast (HighPart u)) OR ucast (LowPart u)"

section \<open>The operating system\<close>

text \<open>
  The operating system is a parameter: a state of any type \<open>'s\<close> and, for each
  primitive the layer calls, a function from the arguments and the state to the
  primitive's result and the next state. Nothing is assumed about what the primitives
  return.
\<close>

record 's posix_os =
  nanosleep :: "timespec \<Rightarrow> 's \<Rightarrow> c_int \<times> 's"
  clock_gettime :: "clockid_t \<Rightarrow> 's \<Rightarrow> (c_int \<times> timespec) \<times> 's"
  sched_yield :: "'s \<Rightarrow> c_int \<times> 's"
  sysconf :: "sysconf_name \<Rightarrow> 's \<Rightarrow> c_long \<times> 's"

text \<open>
  \<^verbatim>\<open>GetProcessTimes\<close> is the call on the handle of the current process; its result
  is the \<^verbatim>\<open>BOOL\<close> and the creation, exit, kernel and user times. \<^verbatim>\<open>GetSystemInfo\<close>
  gives the field \<^verbatim>\<open>dwNumberOfProcessors\<close>, the only one the layer reads.
\<close>

record 's win32_os =
  Sleep :: "DWORD \<Rightarrow> 's \<Rightarrow> 's"
  QueryPerformanceFrequency :: "'s \<Rightarrow> (BOOL \<times> int64_t) \<times> 's"
  QueryPerformanceCounter :: "'s \<Rightarrow> (BOOL \<times> int64_t) \<times> 's"
  GetProcessTimes :: "'s \<Rightarrow> (BOOL \<times> FILETIME \<times> FILETIME \<times> FILETIME \<times> FILETIME) \<times> 's"
  SwitchToThread :: "'s \<Rightarrow> BOOL \<times> 's"
  GetSystemInfo :: "'s \<Rightarrow> DWORD \<times> 's"

datatype os_call =
    Call_nanosleep timespec
  | Call_clock_gettime clockid_t
  | Call_sched_yield
  | Call_sysconf sysconf_name
  | Call_Sleep DWORD
  | Call_QueryPerformanceFrequency
  | Call_QueryPerformanceCounter
  | Call_GetProcessTimes
  | Call_SwitchToThread
  | Call_GetSystemInfo

text \<open>
  The world a call of the layer runs in: the state of the operating system, the list
  of the calls made to it so far (oldest first), and the memory of the process outside
  the operating system, where a static or global variable of the layer would live.
\<close>

record ('s, 'g) world =
  os_state :: 's
  os_calls :: "os_call list"
  globals :: 'g

definition do_nanosleep ::
  "'s posix_os \<Rightarrow> timespec \<Rightarrow> ('s, 'g) world \<Rightarrow> c_int \<times> ('s, 'g) world" where
  "do_nanosleep P req w =
     (case nanosleep P req (os_state w) of
        (rc, s') \<Rightarrow> (rc, w\<lparr>os_state := s', os_calls := os_calls w @ [Call_nanosleep req]\<rparr>))"

definition do_clock_gettime ::
  "'s posix_os \<Rightarrow> clockid_t \<Rightarrow> ('s, 'g) world \<Rightarrow> (c_int \<times> timespec) \<times> ('s, 'g) world" where
  "do_clock_gettime P clk w =
     (case clock_gettime P clk (os_state w) of
        (r, s') \<Rightarrow> (r, w\<lparr>os_state := s', os_calls := os_calls w @ [Call_clock_gettime clk]\<rparr>))"

definition do_sched_yield ::
  "'s posix_os \<Rightarrow> ('s, 'g) world \<Rightarrow> c_int \<times> ('s, 'g) world" where
  "do_sched_yield P w =
     (case sched_yield P (os_state w) of
        (rc, s') \<Rightarrow> (rc, w\<lparr>os_state := s', os_calls := os_calls w @ [Call_sched_yield]\<rparr>))"

definition do_sysconf ::
  "'s posix_os \<Rightarrow> sysconf_name \<Rightarrow> ('s, 'g) world \<Rightarrow> c_long \<times> ('s, 'g) world" where
  "do_sysconf P name w =
     (case sysconf P name (os_state w) of
        (v, s') \<Rightarrow> (v, w\<lparr>os_state := s', os_calls := os_calls w @ [Call_sysconf name]\<rparr>))"

definition do_Sleep ::
  "'s win32_os \<Rightarrow> DWORD \<Rightarrow> ('s, 'g) world \<Rightarrow> ('s, 'g) world" where
  "do_Sleep W d w =
     w\<lparr>os_state := Sleep W d (os_state w), os_calls := os_calls w @ [Call_Sleep d]\<rparr>"

definition do_QueryPerformanceFrequency ::
  "'s win32_os \<Rightarrow> ('s, 'g) world \<Rightarrow> (BOOL \<times> int64_t) \<times> ('s, 'g) world" where
  "do_QueryPerformanceFrequency W w =
     (case QueryPerformanceFrequency W (os_state w) of
        (r, s') \<Rightarrow>
          (r, w\<lparr>os_state := s', os_calls := os_calls w @ [Call_QueryPerformanceFrequency]\<rparr>))"

definition do_QueryPerformanceCounter ::
  "'s win32_os \<Rightarrow> ('s, 'g) world \<Rightarrow> (BOOL \<times> int64_t) \<times> ('s, 'g) world" where
  "do_QueryPerformanceCounter W w =
     (case QueryPerformanceCounter W (os_state w) of
        (r, s') \<Rightarrow>
          (r, w\<lparr>os_state := s', os_calls := os_calls w @ [Call_QueryPerformanceCounter]\<rparr>))"

definition do_GetProcessTimes ::
  "'s win32_os \<Rightarrow> ('s, 'g) world \<Rightarrow>
     (BOOL \<times> FILETIME \<times> FILETIME \<times> FILETIME \<times> FILETIME) \<times> ('s, 'g) world" where
  "do_GetProcessTimes W w =
     (case GetProcessTimes W (os_state w) of
        (r, s') \<Rightarrow> (r, w\<lparr>os_state := s', os_calls := os_calls w @ [Call_GetProcessTimes]\<rparr>))"

definition do_SwitchToThread ::
  "'s win32_os \<Rightarrow> ('s, 'g) world \<Rightarrow> BOOL \<times> ('s, 'g) world" where
  "do_SwitchToThread W w =
     (case SwitchToThread W (os_state w) of
        (r, s') \<Rightarrow> (r, w\<lparr>os_state := s', os_calls := os_calls w @ [Call_SwitchToThread]\<rparr>))"

definition do_GetSystemInfo ::
  "'s win32_os \<Rightarrow> ('s, 'g) world \<Rightarrow> DWORD \<times> ('s, 'g) world" where
  "do_GetSystemInfo W w =
     (case GetSystemInfo W (os_state w) of
        (n, s') \<Rightarrow> (n, w\<lparr>os_state := s', os_calls := os_calls w @ [Call_GetSystemInfo]\<rparr>))"

section \<open>The five operations, one definition for each build path\<close>

subsection \<open>\<^verbatim>\<open>qi_async_sys_sleep_ms\<close>\<close>

definition qi_async_sys_sleep_ms_posix ::
  "'s posix_os \<Rightarrow> c_int \<Rightarrow> ('s, 'g) world \<Rightarrow> c_int \<times> ('s, 'g) world" where
  "qi_async_sys_sleep_ms_posix P ms w =
     (if ms <s 0 then (- 1, w)
      else
        let req = \<lparr>tv_sec = scast (c_div ms 1000),
                   tv_nsec = scast (c_mod ms 1000 * 1000000)\<rparr>
        in case do_nanosleep P req w of
             (rc, w') \<Rightarrow> if rc = - 1 then (- 1, w') else (0, w'))"

definition qi_async_sys_sleep_ms_win32 ::
  "'s win32_os \<Rightarrow> c_int \<Rightarrow> ('s, 'g) world \<Rightarrow> c_int \<times> ('s, 'g) world" where
  "qi_async_sys_sleep_ms_win32 W ms w =
     (if ms <s 0 then (- 1, w) else (0, do_Sleep W ms w))"

subsection \<open>\<^verbatim>\<open>qi_async_sys_monotonic_time_ns\<close>\<close>

text \<open>
  The Windows path divides by the frequency the system reports, so its result is an
  option: \<open>None\<close> is the trap of that division.
\<close>

definition qi_async_sys_monotonic_time_ns_win32 ::
  "'s win32_os \<Rightarrow> ('s, 'g) world \<Rightarrow> int64_t option \<times> ('s, 'g) world" where
  "qi_async_sys_monotonic_time_ns_win32 W w =
     (case do_QueryPerformanceFrequency W w of
        ((ok_f, frequency), w1) \<Rightarrow>
          if ok_f = 0 then (Some (- 1), w1)
          else
            case do_QueryPerformanceCounter W w1 of
              ((ok_c, counter), w2) \<Rightarrow>
                if ok_c = 0 then (Some (- 1), w2)
                else (c_div_checked (counter * 1000000000) frequency, w2))"

definition qi_async_sys_monotonic_time_ns_apple ::
  "'s posix_os \<Rightarrow> ('s, 'g) world \<Rightarrow> int64_t \<times> ('s, 'g) world" where
  "qi_async_sys_monotonic_time_ns_apple P w =
     (case do_clock_gettime P CLOCK_MONOTONIC w of
        ((rc, ts), w') \<Rightarrow>
          if rc \<noteq> 0 then (- 1, w') else (tv_sec ts * 1000000000 + tv_nsec ts, w'))"

definition qi_async_sys_monotonic_time_ns_posix ::
  "'s posix_os \<Rightarrow> ('s, 'g) world \<Rightarrow> int64_t \<times> ('s, 'g) world" where
  "qi_async_sys_monotonic_time_ns_posix P w =
     (case do_clock_gettime P CLOCK_MONOTONIC w of
        ((rc, ts), w') \<Rightarrow>
          if rc \<noteq> 0 then (- 1, w') else (tv_sec ts * 1000000000 + tv_nsec ts, w'))"

subsection \<open>\<^verbatim>\<open>qi_async_sys_cpu_time_ns\<close>\<close>

definition qi_async_sys_cpu_time_ns_win32 ::
  "'s win32_os \<Rightarrow> ('s, 'g) world \<Rightarrow> int64_t \<times> ('s, 'g) world" where
  "qi_async_sys_cpu_time_ns_win32 W w =
     (case do_GetProcessTimes W w of
        ((ok, creation_time, exit_time, kernel_time, user_time), w') \<Rightarrow>
          if ok = 0 then (- 1, w')
          else
            let kernel = \<lparr>LowPart = dwLowDateTime kernel_time,
                          HighPart = dwHighDateTime kernel_time\<rparr>;
                user = \<lparr>LowPart = dwLowDateTime user_time,
                        HighPart = dwHighDateTime user_time\<rparr>
            in ((QuadPart kernel + QuadPart user) * 100, w'))"

definition qi_async_sys_cpu_time_ns_posix ::
  "'s posix_os \<Rightarrow> ('s, 'g) world \<Rightarrow> int64_t \<times> ('s, 'g) world" where
  "qi_async_sys_cpu_time_ns_posix P w =
     (case do_clock_gettime P CLOCK_PROCESS_CPUTIME_ID w of
        ((rc, ts), w') \<Rightarrow>
          if rc \<noteq> 0 then (- 1, w') else (tv_sec ts * 1000000000 + tv_nsec ts, w'))"

subsection \<open>\<^verbatim>\<open>qi_async_sys_yield\<close>\<close>

definition qi_async_sys_yield_win32 ::
  "'s win32_os \<Rightarrow> ('s, 'g) world \<Rightarrow> c_int \<times> ('s, 'g) world" where
  "qi_async_sys_yield_win32 W w =
     (case do_SwitchToThread W w of (switched, w') \<Rightarrow> (0, w'))"

definition qi_async_sys_yield_posix ::
  "'s posix_os \<Rightarrow> ('s, 'g) world \<Rightarrow> c_int \<times> ('s, 'g) world" where
  "qi_async_sys_yield_posix P w =
     (case do_sched_yield P w of
        (rc, w') \<Rightarrow> if rc = - 1 then (- 1, w') else (0, w'))"

subsection \<open>\<^verbatim>\<open>qi_async_sys_cpu_count\<close>\<close>

text \<open>The cast \<^verbatim>\<open>(int)\<close> keeps the low 32 bits of the \<^verbatim>\<open>long\<close>.\<close>

definition qi_async_sys_cpu_count_win32 ::
  "'s win32_os \<Rightarrow> ('s, 'g) world \<Rightarrow> c_int \<times> ('s, 'g) world" where
  "qi_async_sys_cpu_count_win32 W w =
     (case do_GetSystemInfo W w of (dwNumberOfProcessors, w') \<Rightarrow> (dwNumberOfProcessors, w'))"

definition qi_async_sys_cpu_count_posix ::
  "'s posix_os \<Rightarrow> ('s, 'g) world \<Rightarrow> c_int \<times> ('s, 'g) world" where
  "qi_async_sys_cpu_count_posix P w =
     (case do_sysconf P SC_NPROCESSORS_ONLN w of
        (nprocs, w') \<Rightarrow> if nprocs = - 1 then (- 1, w') else (ucast nprocs, w'))"

section \<open>Scripted operating systems\<close>

text \<open>
  Two concrete operating systems, for running the operations on concrete inputs. Their
  state is the script of what the primitives will return; a clock read consumes the
  first scripted reading, and reports an error when none is left.
\<close>

record posix_script =
  sleep_rc :: c_int
  clock_readings :: "(c_int \<times> timespec) list"
  yield_rc :: c_int
  nprocs_reply :: c_long

definition scripted_posix :: "posix_script posix_os" where
  "scripted_posix =
     \<lparr>nanosleep = (\<lambda>req s. (sleep_rc s, s)),
      clock_gettime = (\<lambda>clk s.
        case clock_readings s of
          [] \<Rightarrow> ((- 1, \<lparr>tv_sec = 0, tv_nsec = 0\<rparr>), s)
        | r # rs \<Rightarrow> (r, s\<lparr>clock_readings := rs\<rparr>)),
      sched_yield = (\<lambda>s. (yield_rc s, s)),
      sysconf = (\<lambda>name s. (nprocs_reply s, s))\<rparr>"

record win32_script =
  frequency_reply :: "BOOL \<times> int64_t"
  counter_readings :: "(BOOL \<times> int64_t) list"
  times_reply :: "BOOL \<times> FILETIME \<times> FILETIME \<times> FILETIME \<times> FILETIME"
  processors_reply :: DWORD

definition scripted_win32 :: "win32_script win32_os" where
  "scripted_win32 =
     \<lparr>Sleep = (\<lambda>d s. s),
      QueryPerformanceFrequency = (\<lambda>s. (frequency_reply s, s)),
      QueryPerformanceCounter = (\<lambda>s.
        case counter_readings s of
          [] \<Rightarrow> ((0, 0), s)
        | r # rs \<Rightarrow> (r, s\<lparr>counter_readings := rs\<rparr>)),
      GetProcessTimes = (\<lambda>s. (times_reply s, s)),
      SwitchToThread = (\<lambda>s. (1, s)),
      GetSystemInfo = (\<lambda>s. (processors_reply s, s))\<rparr>"

definition start :: "'s \<Rightarrow> ('s, unit) world" where
  "start s = \<lparr>os_state = s, os_calls = [], globals = ()\<rparr>"

definition posix_script0 :: posix_script where
  "posix_script0 = \<lparr>sleep_rc = 0, clock_readings = [], yield_rc = 0, nprocs_reply = 4\<rparr>"

definition win32_script0 :: win32_script where
  "win32_script0 =
     \<lparr>frequency_reply = (1, 10000000), counter_readings = [],
      times_reply = (0, \<lparr>dwLowDateTime = 0, dwHighDateTime = 0\<rparr>,
        \<lparr>dwLowDateTime = 0, dwHighDateTime = 0\<rparr>, \<lparr>dwLowDateTime = 0, dwHighDateTime = 0\<rparr>,
        \<lparr>dwLowDateTime = 0, dwHighDateTime = 0\<rparr>),
      processors_reply = 4\<rparr>"

section \<open>Counting the waits in a list of calls\<close>

fun is_wait :: "os_call \<Rightarrow> bool" where
  "is_wait (Call_nanosleep req) = True"
| "is_wait (Call_Sleep d) = True"
| "is_wait c = False"

definition wait_calls :: "os_call list \<Rightarrow> nat" where
  "wait_calls cs = length (filter is_wait cs)"

section \<open>Clock readings and tick counts as integers\<close>

text \<open>
  A reading of a POSIX clock is a \<^verbatim>\<open>timespec\<close>. One reading is not later than
  another when its seconds are fewer, or the seconds are equal and its nanoseconds are
  not more. A reading is valid when its nanoseconds lie in \<open>[0, 10^9)\<close>, and it fits
  when its count of nanoseconds is a signed 64-bit value.
\<close>

definition timespec_le :: "timespec \<Rightarrow> timespec \<Rightarrow> bool" where
  "timespec_le a b \<longleftrightarrow>
     sint (tv_sec a) < sint (tv_sec b) \<or>
     (sint (tv_sec a) = sint (tv_sec b) \<and> sint (tv_nsec a) \<le> sint (tv_nsec b))"

definition timespec_valid :: "timespec \<Rightarrow> bool" where
  "timespec_valid ts \<longleftrightarrow> 0 \<le> sint (tv_nsec ts) \<and> sint (tv_nsec ts) < 10 ^ 9"

definition timespec_fits :: "timespec \<Rightarrow> bool" where
  "timespec_fits ts \<longleftrightarrow>
     - (2 ^ 63) \<le> sint (tv_sec ts) * 10 ^ 9 + sint (tv_nsec ts) \<and>
     sint (tv_sec ts) * 10 ^ 9 + sint (tv_nsec ts) < 2 ^ 63"

text \<open>A \<^verbatim>\<open>FILETIME\<close> is a count of 100 ns ticks, split into two 32-bit halves.\<close>

definition filetime_ticks :: "FILETIME \<Rightarrow> int" where
  "filetime_ticks ft = uint (dwHighDateTime ft) * 2 ^ 32 + uint (dwLowDateTime ft)"

section \<open>Concrete scripts and worlds\<close>

definition minus_one_reading :: timespec where
  "minus_one_reading = \<lparr>tv_sec = - 1, tv_nsec = 999999999\<rparr>"

definition early_readings :: posix_script where
  "early_readings = posix_script0\<lparr>clock_readings :=
     [(0, \<lparr>tv_sec = 5, tv_nsec = 999999999\<rparr>), (0, \<lparr>tv_sec = 6, tv_nsec = 0\<rparr>)]\<rparr>"

definition cpu_reading :: posix_script where
  "cpu_reading = posix_script0\<lparr>clock_readings := [(0, \<lparr>tv_sec = 3, tv_nsec = 500\<rparr>)]\<rparr>"

definition busy_times :: win32_script where
  "busy_times = win32_script0\<lparr>times_reply :=
     (1, \<lparr>dwLowDateTime = 0, dwHighDateTime = 0\<rparr>, \<lparr>dwLowDateTime = 0, dwHighDateTime = 0\<rparr>,
      \<lparr>dwLowDateTime = 20000000, dwHighDateTime = 0\<rparr>,
      \<lparr>dwLowDateTime = 10000000, dwHighDateTime = 0\<rparr>)\<rparr>"

definition wrapped_counters :: win32_script where
  "wrapped_counters = win32_script0\<lparr>counter_readings := [(1, 9223372036), (1, 9223372037)]\<rparr>"

definition wrapped_counter :: win32_script where
  "wrapped_counter = win32_script0\<lparr>counter_readings := [(1, 9223372037)]\<rparr>"

section \<open>Signed values of word arithmetic that stays in range\<close>

lemma sint_word_of_int_in_range:
  assumes "- (2 ^ (LENGTH('a::len) - 1)) \<le> k" and "k < 2 ^ (LENGTH('a) - 1)"
  shows "sint (word_of_int k :: 'a word) = k"
  using assms by (simp add: sint_sbintrunc' signed_take_bit_int_eq_self)





section \<open>Sleep\<close>

text \<open>
  C1. For every negative \<open>ms\<close>, \<^verbatim>\<open>qi_async_sys_sleep_ms\<close> returns its error result
  \<open>-1\<close> at once, on the POSIX path and on the Windows path: the world it returns is the
  world it was given, so no call reached the operating system (the list of calls is the
  same, no \<^verbatim>\<open>nanosleep\<close> and no \<^verbatim>\<open>Sleep\<close> was added) and no state changed.
\<close>

theorem sleep_negative_rejected:
  assumes "ms <s 0"
  shows "qi_async_sys_sleep_ms_posix P ms w = (- 1, w) \<and>
         os_calls (snd (qi_async_sys_sleep_ms_posix P ms w)) = os_calls w \<and>
         qi_async_sys_sleep_ms_win32 W ms v = (- 1, v) \<and>
         os_calls (snd (qi_async_sys_sleep_ms_win32 W ms v)) = os_calls v"
  using assms by (simp add: qi_async_sys_sleep_ms_posix_def qi_async_sys_sleep_ms_win32_def)

theorem sleep_negative_rejected_witness:
  "(- 1 :: c_int) <s 0 \<and>
   qi_async_sys_sleep_ms_posix scripted_posix (- 1) (start posix_script0)
     = (- 1, start posix_script0) \<and>
   qi_async_sys_sleep_ms_win32 scripted_win32 (- 1) (start win32_script0)
     = (- 1, start win32_script0)"
proof -
  have neg: "(- 1 :: c_int) <s 0" by simp
  show ?thesis
    using neg
      sleep_negative_rejected [OF neg, of scripted_posix "start posix_script0"
        scripted_win32 "start win32_script0"]
    by simp
qed

text \<open>
  C2. For every \<open>ms \<ge> 0\<close>, one call of \<^verbatim>\<open>qi_async_sys_sleep_ms\<close> on the POSIX path
  makes exactly one call to the operating system, a \<^verbatim>\<open>nanosleep\<close>: the state it
  leaves is the state right after that one wait, the number of waits in the list of
  calls grew by one, and when that wait reported \<open>-1\<close> (it was interrupted) the
  function returns the failure \<open>-1\<close>; the wait is not issued again. The Windows path
  makes exactly one \<^verbatim>\<open>Sleep\<close>, which reports nothing, and returns \<open>0\<close>.
\<close>

theorem sleep_interrupted_not_retried:
  assumes "0 \<le>s ms" and "qi_async_sys_sleep_ms_posix P ms w = (r, w')"
  shows "(\<exists>req. os_calls w' = os_calls w @ [Call_nanosleep req] \<and>
            os_state w' = snd (nanosleep P req (os_state w)) \<and>
            globals w' = globals w \<and>
            wait_calls (os_calls w') = wait_calls (os_calls w) + 1 \<and>
            (fst (nanosleep P req (os_state w)) = - 1 \<longrightarrow> r = - 1)) \<and>
         qi_async_sys_sleep_ms_win32 W ms v =
           (0, v\<lparr>os_state := Sleep W ms (os_state v),
                 os_calls := os_calls v @ [Call_Sleep ms]\<rparr>)"
proof -
  define req where "req = \<lparr>tv_sec = (scast (c_div ms 1000) :: c_long),
                           tv_nsec = scast (c_mod ms 1000 * 1000000)\<rparr>"
  have not_neg: "\<not> ms <s 0" using assms(1) by (simp add: word_sle_eq word_sless_alt)
  obtain rc s' where ns: "nanosleep P req (os_state w) = (rc, s')"
    by (cases "nanosleep P req (os_state w)")
  have w': "w' = w\<lparr>os_state := s', os_calls := os_calls w @ [Call_nanosleep req]\<rparr>"
    and r: "r = (if rc = - 1 then - 1 else 0)"
    using assms(2) not_neg ns
    by (auto simp: qi_async_sys_sleep_ms_posix_def do_nanosleep_def req_def Let_def
        split: if_splits)
  have posix: "\<exists>req. os_calls w' = os_calls w @ [Call_nanosleep req] \<and>
            os_state w' = snd (nanosleep P req (os_state w)) \<and>
            globals w' = globals w \<and>
            wait_calls (os_calls w') = wait_calls (os_calls w) + 1 \<and>
            (fst (nanosleep P req (os_state w)) = - 1 \<longrightarrow> r = - 1)"
    by (rule exI [of _ req]) (simp add: w' r ns wait_calls_def)
  have win: "qi_async_sys_sleep_ms_win32 W ms v =
           (0, v\<lparr>os_state := Sleep W ms (os_state v),
                 os_calls := os_calls v @ [Call_Sleep ms]\<rparr>)"
    using not_neg by (simp add: qi_async_sys_sleep_ms_win32_def do_Sleep_def)
  from posix win show ?thesis by (rule conjI)
qed

theorem sleep_interrupted_not_retried_witness:
  "(0 :: c_int) \<le>s 1500 \<and>
   fst (qi_async_sys_sleep_ms_posix scripted_posix 1500
          (start (posix_script0\<lparr>sleep_rc := - 1\<rparr>))) = - 1 \<and>
   wait_calls (os_calls (snd (qi_async_sys_sleep_ms_posix scripted_posix 1500
          (start (posix_script0\<lparr>sleep_rc := - 1\<rparr>))))) = 1"
proof -
  let ?w = "start (posix_script0\<lparr>sleep_rc := - 1\<rparr>)"
  obtain r w' where run: "qi_async_sys_sleep_ms_posix scripted_posix 1500 ?w = (r, w')"
    by (cases "qi_async_sys_sleep_ms_posix scripted_posix 1500 ?w")
  have nonneg: "(0 :: c_int) \<le>s 1500" by (simp add: word_sle_eq)
  have interrupted: "fst (nanosleep scripted_posix req (os_state ?w)) = - 1" for req
    by (simp add: scripted_posix_def start_def posix_script0_def)
  have none_before: "wait_calls (os_calls ?w) = 0"
    by (simp add: start_def wait_calls_def)
  from sleep_interrupted_not_retried [OF nonneg run] interrupted none_before
  have "r = - 1 \<and> wait_calls (os_calls w') = 1" by auto
  with nonneg run show ?thesis by simp
qed



section \<open>Monotonic time on the POSIX path\<close>

lemma sint_timespec_ns:
  assumes "timespec_fits ts"
  shows "sint (tv_sec ts * 1000000000 + tv_nsec ts) =
         sint (tv_sec ts) * 10 ^ 9 + sint (tv_nsec ts)"
proof -
  have "tv_sec ts * 1000000000 + tv_nsec ts =
      word_of_int (sint (tv_sec ts) * 10 ^ 9 + sint (tv_nsec ts))"
    by simp
  then have "sint (tv_sec ts * 1000000000 + tv_nsec ts) =
      sint (word_of_int (sint (tv_sec ts) * 10 ^ 9 + sint (tv_nsec ts)) :: 64 word)"
    by simp
  also have "\<dots> = sint (tv_sec ts) * 10 ^ 9 + sint (tv_nsec ts)"
    using assms by (intro sint_word_of_int_in_range) (auto simp: timespec_fits_def)
  finally show ?thesis .
qed

lemma timespec_ns_mono:
  fixes s1 n1 s2 n2 :: int
  assumes "s1 < s2 \<or> (s1 = s2 \<and> n1 \<le> n2)" and "n1 < 10 ^ 9" and "0 \<le> n2"
  shows "s1 * 10 ^ 9 + n1 \<le> s2 * 10 ^ 9 + n2"
proof (cases "s1 < s2")
  case True
  then have "s1 + 1 \<le> s2" by simp
  then have "(s1 + 1) * 10 ^ 9 \<le> s2 * 10 ^ 9" by (intro mult_right_mono) auto
  then show ?thesis using assms(2,3) by (simp add: algebra_simps)
next
  case False
  with assms(1) show ?thesis by auto
qed

text \<open>
  C4. For any two successive successful calls of \<^verbatim>\<open>qi_async_sys_monotonic_time_ns\<close>
  on the POSIX path, when the second reading of the monotonic clock is not earlier than
  the first, the second returned value is at least the first. The readings are those a
  64-bit nanosecond timestamp can stand for: timespecs as \<^verbatim>\<open>clock_gettime\<close> delivers
  them (\<open>0 \<le> tv_nsec < 10^9\<close>) whose count \<open>tv_sec * 10^9 + tv_nsec\<close> is a signed
  64-bit value; on them the conversion is the integer \<open>tv_sec * 10^9 + tv_nsec\<close>, which
  is monotone in the reading.
\<close>

theorem monotonic_time_nondecreasing_in_range:
  assumes read1: "clock_gettime P CLOCK_MONOTONIC (os_state w) = ((0, r1), s1)"
    and call1: "qi_async_sys_monotonic_time_ns_posix P w = (t1, w1)"
    and read2: "clock_gettime P CLOCK_MONOTONIC (os_state w1) = ((0, r2), s2)"
    and call2: "qi_async_sys_monotonic_time_ns_posix P w1 = (t2, w2)"
    and order: "timespec_le r1 r2"
    and valid: "timespec_valid r1" "timespec_valid r2"
    and fits: "timespec_fits r1" "timespec_fits r2"
  shows "t1 \<le>s t2"
proof -
  have t1: "t1 = tv_sec r1 * 1000000000 + tv_nsec r1"
    using call1 by (simp add: qi_async_sys_monotonic_time_ns_posix_def do_clock_gettime_def read1)
  have t2: "t2 = tv_sec r2 * 1000000000 + tv_nsec r2"
    using call2 by (simp add: qi_async_sys_monotonic_time_ns_posix_def do_clock_gettime_def read2)
  have "sint (tv_sec r1) * 10 ^ 9 + sint (tv_nsec r1) \<le>
        sint (tv_sec r2) * 10 ^ 9 + sint (tv_nsec r2)"
    by (rule timespec_ns_mono)
      (use order valid in \<open>auto simp: timespec_le_def timespec_valid_def\<close>)
  then have "sint t1 \<le> sint t2"
    by (simp add: t1 t2 sint_timespec_ns fits)
  then show ?thesis by (simp add: word_sle_eq)
qed

theorem monotonic_time_nondecreasing_in_range_witness:
  "timespec_le \<lparr>tv_sec = 5, tv_nsec = 999999999\<rparr> \<lparr>tv_sec = 6, tv_nsec = 0\<rparr> \<and>
   fst (qi_async_sys_monotonic_time_ns_posix scripted_posix (start early_readings)) = 5999999999 \<and>
   fst (qi_async_sys_monotonic_time_ns_posix scripted_posix (start early_readings)) \<le>s
     fst (qi_async_sys_monotonic_time_ns_posix scripted_posix
       (snd (qi_async_sys_monotonic_time_ns_posix scripted_posix (start early_readings))))"
proof -
  let ?r1 = "\<lparr>tv_sec = 5, tv_nsec = 999999999\<rparr>" and ?r2 = "\<lparr>tv_sec = 6, tv_nsec = 0\<rparr>"
  let ?w = "start early_readings"
  let ?run1 = "qi_async_sys_monotonic_time_ns_posix scripted_posix ?w"
  let ?run2 = "qi_async_sys_monotonic_time_ns_posix scripted_posix (snd ?run1)"
  have read1: "clock_gettime scripted_posix CLOCK_MONOTONIC (os_state ?w) =
      ((0, ?r1), early_readings\<lparr>clock_readings := [(0, ?r2)]\<rparr>)"
    by (simp add: scripted_posix_def start_def early_readings_def)
  have call1: "?run1 = (fst ?run1, snd ?run1)" by simp
  have read2: "clock_gettime scripted_posix CLOCK_MONOTONIC (os_state (snd ?run1)) =
      ((0, ?r2), early_readings\<lparr>clock_readings := []\<rparr>)"
    by (simp add: qi_async_sys_monotonic_time_ns_posix_def do_clock_gettime_def
        scripted_posix_def start_def early_readings_def)
  have call2: "?run2 = (fst ?run2, snd ?run2)" by simp
  have order: "timespec_le ?r1 ?r2" by (simp add: timespec_le_def)
  have valid: "timespec_valid ?r1" "timespec_valid ?r2" by (simp_all add: timespec_valid_def)
  have fits: "timespec_fits ?r1" "timespec_fits ?r2" by (simp_all add: timespec_fits_def)
  have first: "fst ?run1 = 5999999999"
    by (simp add: qi_async_sys_monotonic_time_ns_posix_def do_clock_gettime_def
        scripted_posix_def start_def early_readings_def)
  from monotonic_time_nondecreasing_in_range [OF read1 call1 read2 call2 order valid fits]
    order first
  show ?thesis by (intro conjI)
qed

section \<open>Failure of the clock\<close>

text \<open>
  C5. \<^verbatim>\<open>qi_async_sys_monotonic_time_ns\<close> and \<^verbatim>\<open>qi_async_sys_cpu_time_ns\<close> take
  their failure branch exactly when the clock primitive reports an error (a non-zero
  result of \<^verbatim>\<open>clock_gettime\<close>, a zero \<^verbatim>\<open>BOOL\<close> on Windows), and on that branch
  they return \<open>-1\<close> and nothing else; otherwise they return the converted reading. The
  value \<open>-1\<close> is in band: the successful reading \<open>minus_one_reading\<close> converts to
  \<open>-1\<close> as well.
\<close>

theorem clock_error_returns_sentinel:
  assumes mono: "clock_gettime P CLOCK_MONOTONIC (os_state w) = ((rc_m, ts_m), s_m)"
    and cpu: "clock_gettime P CLOCK_PROCESS_CPUTIME_ID (os_state w) = ((rc_c, ts_c), s_c)"
    and freq: "QueryPerformanceFrequency W (os_state v) = ((ok_f, f), s_f)"
    and cnt: "QueryPerformanceCounter W s_f = ((ok_q, q), s_q)"
    and times: "GetProcessTimes W (os_state v) = ((ok_t, ct, et, kt, ut), s_t)"
  shows "fst (qi_async_sys_monotonic_time_ns_posix P w) =
           (if rc_m \<noteq> 0 then - 1 else tv_sec ts_m * 1000000000 + tv_nsec ts_m) \<and>
         fst (qi_async_sys_monotonic_time_ns_apple P w) =
           (if rc_m \<noteq> 0 then - 1 else tv_sec ts_m * 1000000000 + tv_nsec ts_m) \<and>
         fst (qi_async_sys_cpu_time_ns_posix P w) =
           (if rc_c \<noteq> 0 then - 1 else tv_sec ts_c * 1000000000 + tv_nsec ts_c) \<and>
         fst (qi_async_sys_monotonic_time_ns_win32 W v) =
           (if ok_f = 0 \<or> ok_q = 0 then Some (- 1)
            else c_div_checked (q * 1000000000) f) \<and>
         fst (qi_async_sys_cpu_time_ns_win32 W v) =
           (if ok_t = 0 then - 1
            else (QuadPart \<lparr>LowPart = dwLowDateTime kt, HighPart = dwHighDateTime kt\<rparr> +
                  QuadPart \<lparr>LowPart = dwLowDateTime ut, HighPart = dwHighDateTime ut\<rparr>) * 100) \<and>
         fst (fst (clock_gettime scripted_posix CLOCK_MONOTONIC
                (posix_script0\<lparr>clock_readings := [(0, minus_one_reading)]\<rparr>))) = 0 \<and>
         fst (qi_async_sys_monotonic_time_ns_posix scripted_posix
                (start (posix_script0\<lparr>clock_readings := [(0, minus_one_reading)]\<rparr>))) = - 1"
proof -
  have a: "fst (qi_async_sys_monotonic_time_ns_posix P w) =
           (if rc_m \<noteq> 0 then - 1 else tv_sec ts_m * 1000000000 + tv_nsec ts_m)"
    by (simp add: qi_async_sys_monotonic_time_ns_posix_def do_clock_gettime_def mono)
  have b: "fst (qi_async_sys_monotonic_time_ns_apple P w) =
           (if rc_m \<noteq> 0 then - 1 else tv_sec ts_m * 1000000000 + tv_nsec ts_m)"
    by (simp add: qi_async_sys_monotonic_time_ns_apple_def do_clock_gettime_def mono)
  have c: "fst (qi_async_sys_cpu_time_ns_posix P w) =
           (if rc_c \<noteq> 0 then - 1 else tv_sec ts_c * 1000000000 + tv_nsec ts_c)"
    by (simp add: qi_async_sys_cpu_time_ns_posix_def do_clock_gettime_def cpu)
  have d: "fst (qi_async_sys_monotonic_time_ns_win32 W v) =
           (if ok_f = 0 \<or> ok_q = 0 then Some (- 1)
            else c_div_checked (q * 1000000000) f)"
    by (simp add: qi_async_sys_monotonic_time_ns_win32_def do_QueryPerformanceFrequency_def
        do_QueryPerformanceCounter_def freq cnt)
  have e: "fst (qi_async_sys_cpu_time_ns_win32 W v) =
           (if ok_t = 0 then - 1
            else (QuadPart \<lparr>LowPart = dwLowDateTime kt, HighPart = dwHighDateTime kt\<rparr> +
                  QuadPart \<lparr>LowPart = dwLowDateTime ut, HighPart = dwHighDateTime ut\<rparr>) * 100)"
    by (simp add: qi_async_sys_cpu_time_ns_win32_def do_GetProcessTimes_def times Let_def)
  have f: "fst (fst (clock_gettime scripted_posix CLOCK_MONOTONIC
                (posix_script0\<lparr>clock_readings := [(0, minus_one_reading)]\<rparr>))) = 0"
    by (simp add: scripted_posix_def)
  have g: "fst (qi_async_sys_monotonic_time_ns_posix scripted_posix
                (start (posix_script0\<lparr>clock_readings := [(0, minus_one_reading)]\<rparr>))) = - 1"
    by (simp add: qi_async_sys_monotonic_time_ns_posix_def do_clock_gettime_def
        scripted_posix_def start_def minus_one_reading_def)
  from a b c d e f g show ?thesis by (intro conjI)
qed

theorem clock_error_returns_sentinel_witness:
  "fst (fst (clock_gettime scripted_posix CLOCK_MONOTONIC posix_script0)) \<noteq> 0 \<and>
   fst (qi_async_sys_monotonic_time_ns_posix scripted_posix (start posix_script0)) = - 1 \<and>
   fst (qi_async_sys_cpu_time_ns_posix scripted_posix (start posix_script0)) = - 1 \<and>
   fst (qi_async_sys_monotonic_time_ns_win32 scripted_win32 (start win32_script0)) = Some (- 1) \<and>
   fst (qi_async_sys_cpu_time_ns_win32 scripted_win32 (start win32_script0)) = - 1"
proof -
  let ?zero = "\<lparr>tv_sec = 0, tv_nsec = 0\<rparr>" and ?ft = "\<lparr>dwLowDateTime = 0, dwHighDateTime = 0\<rparr>"
  have mono: "clock_gettime scripted_posix CLOCK_MONOTONIC (os_state (start posix_script0)) =
      ((- 1, ?zero), posix_script0)"
    by (simp add: scripted_posix_def start_def posix_script0_def)
  have cpu: "clock_gettime scripted_posix CLOCK_PROCESS_CPUTIME_ID (os_state (start posix_script0)) =
      ((- 1, ?zero), posix_script0)"
    by (simp add: scripted_posix_def start_def posix_script0_def)
  have freq: "QueryPerformanceFrequency scripted_win32 (os_state (start win32_script0)) =
      ((1, 10000000), win32_script0)"
    by (simp add: scripted_win32_def start_def win32_script0_def)
  have cnt: "QueryPerformanceCounter scripted_win32 win32_script0 = ((0, 0), win32_script0)"
    by (simp add: scripted_win32_def win32_script0_def)
  have times: "GetProcessTimes scripted_win32 (os_state (start win32_script0)) =
      ((0, ?ft, ?ft, ?ft, ?ft), win32_script0)"
    by (simp add: scripted_win32_def start_def win32_script0_def)
  have err: "fst (fst (clock_gettime scripted_posix CLOCK_MONOTONIC posix_script0)) \<noteq> 0"
    by (simp add: scripted_posix_def posix_script0_def)
  show ?thesis
    using clock_error_returns_sentinel [OF mono cpu freq cnt times] err by simp
qed

section \<open>Process CPU time\<close>

lemma QuadPart_as_sum:
  "QuadPart u = push_bit 32 (ucast (HighPart u)) + ucast (LowPart u)"
proof -
  have "\<not> bit (push_bit 32 (ucast (HighPart u)) :: 64 word) n \<or>
        \<not> bit (ucast (LowPart u) :: 64 word) n" for n
    by (auto simp: bit_simps dest: bit_imp_le_length)
  then show ?thesis unfolding QuadPart_def by (rule disjunctive_add [symmetric])
qed

lemma uint_QuadPart:
  "uint (QuadPart u) = uint (HighPart u) * 2 ^ 32 + uint (LowPart u)"
proof -
  have hi: "uint (HighPart u) < 2 ^ 32" using uint_lt2p [of "HighPart u"] by simp
  have lo: "uint (LowPart u) < 2 ^ 32" using uint_lt2p [of "LowPart u"] by simp
  have hi0: "0 \<le> uint (HighPart u)" and lo0: "0 \<le> uint (LowPart u)" by simp_all
  have "uint (QuadPart u) = (uint (HighPart u) * 2 ^ 32 + uint (LowPart u)) mod 2 ^ 64"
    by (simp add: QuadPart_as_sum push_bit_eq_mult uint_word_ariths uint_up_ucast is_up mod_simps)
  moreover have "0 \<le> uint (HighPart u) * 2 ^ 32 + uint (LowPart u)"
    using hi0 lo0 by simp
  moreover have "uint (HighPart u) * 2 ^ 32 + uint (LowPart u) < 2 ^ 64"
  proof -
    have "uint (HighPart u) * 2 ^ 32 \<le> (2 ^ 32 - 1) * 2 ^ 32"
      using hi by (intro mult_right_mono) auto
    then show ?thesis using lo by simp
  qed
  ultimately show ?thesis by simp
qed

lemma uint_QuadPart_of_FILETIME:
  "uint (QuadPart \<lparr>LowPart = dwLowDateTime ft, HighPart = dwHighDateTime ft\<rparr>) = filetime_ticks ft"
  by (simp add: uint_QuadPart filetime_ticks_def)

lemma sint_eq_uint_below_half:
  fixes x :: "'a::len word"
  assumes "uint x < 2 ^ (LENGTH('a) - 1)"
  shows "sint x = uint x"
proof -
  have "sint x = signed_take_bit (LENGTH('a) - 1) (uint x)"
    by (simp add: sint_uint)
  also have "\<dots> = uint x"
    by (rule signed_take_bit_int_eq_self) (use assms in \<open>auto intro: order_trans [of _ 0]\<close>)
  finally show ?thesis .
qed

text \<open>
  C6. On a successful call, \<^verbatim>\<open>qi_async_sys_cpu_time_ns\<close> on Windows makes one call
  of \<^verbatim>\<open>GetProcessTimes\<close> and returns \<open>(kernel + user) * 100\<close>, where \<open>kernel\<close> and
  \<open>user\<close> are the tick counts of the two \<^verbatim>\<open>FILETIME\<close> values: the equation holds at
  64 bits, and on the integers when the product is below \<open>2^63\<close>. On POSIX it makes
  one call of \<^verbatim>\<open>clock_gettime\<close> on \<^verbatim>\<open>CLOCK_PROCESS_CPUTIME_ID\<close> and returns
  \<open>tv_sec * 10^9 + tv_nsec\<close> of the reading: at 64 bits, and on the integers when that
  count fits. That the two system values are the kernel and user time of all threads
  of the process is the operating system's contract, which is a parameter here.
\<close>

theorem cpu_time_conversion:
  assumes times: "GetProcessTimes W (os_state v) = ((ok, ct, et, kt, ut), s_t)"
    and ok: "ok \<noteq> 0"
    and cpu: "clock_gettime P CLOCK_PROCESS_CPUTIME_ID (os_state w) = ((0, ts), s_c)"
  shows "uint (fst (qi_async_sys_cpu_time_ns_win32 W v)) =
           ((filetime_ticks kt + filetime_ticks ut) * 100) mod 2 ^ 64 \<and>
         ((filetime_ticks kt + filetime_ticks ut) * 100 < 2 ^ 63 \<longrightarrow>
            sint (fst (qi_async_sys_cpu_time_ns_win32 W v)) =
              (filetime_ticks kt + filetime_ticks ut) * 100) \<and>
         os_calls (snd (qi_async_sys_cpu_time_ns_win32 W v)) = os_calls v @ [Call_GetProcessTimes] \<and>
         fst (qi_async_sys_cpu_time_ns_posix P w) = tv_sec ts * 1000000000 + tv_nsec ts \<and>
         (timespec_fits ts \<longrightarrow>
            sint (fst (qi_async_sys_cpu_time_ns_posix P w)) =
              sint (tv_sec ts) * 10 ^ 9 + sint (tv_nsec ts)) \<and>
         os_calls (snd (qi_async_sys_cpu_time_ns_posix P w)) =
           os_calls w @ [Call_clock_gettime CLOCK_PROCESS_CPUTIME_ID]"
proof -
  let ?k = "QuadPart \<lparr>LowPart = dwLowDateTime kt, HighPart = dwHighDateTime kt\<rparr>"
  let ?u = "QuadPart \<lparr>LowPart = dwLowDateTime ut, HighPart = dwHighDateTime ut\<rparr>"
  let ?n = "(filetime_ticks kt + filetime_ticks ut) * 100"
  have win: "qi_async_sys_cpu_time_ns_win32 W v =
      ((?k + ?u) * 100, v\<lparr>os_state := s_t, os_calls := os_calls v @ [Call_GetProcessTimes]\<rparr>)"
    using ok by (simp add: qi_async_sys_cpu_time_ns_win32_def do_GetProcessTimes_def times Let_def)
  have posix: "qi_async_sys_cpu_time_ns_posix P w =
      (tv_sec ts * 1000000000 + tv_nsec ts,
       w\<lparr>os_state := s_c, os_calls := os_calls w @ [Call_clock_gettime CLOCK_PROCESS_CPUTIME_ID]\<rparr>)"
    by (simp add: qi_async_sys_cpu_time_ns_posix_def do_clock_gettime_def cpu)
  have u: "uint ((?k + ?u) * 100) = ?n mod 2 ^ 64"
    by (simp add: uint_word_ariths uint_QuadPart_of_FILETIME mod_simps)
  have a: "uint (fst (qi_async_sys_cpu_time_ns_win32 W v)) = ?n mod 2 ^ 64"
    using u by (simp add: win)
  have b: "?n < 2 ^ 63 \<longrightarrow> sint (fst (qi_async_sys_cpu_time_ns_win32 W v)) = ?n"
  proof
    assume small: "?n < 2 ^ 63"
    have nn: "0 \<le> ?n" by (simp add: filetime_ticks_def)
    have "uint ((?k + ?u) * 100) = ?n" using u nn small by simp
    moreover from this small have "sint ((?k + ?u) * 100) = uint ((?k + ?u) * 100)"
      by (intro sint_eq_uint_below_half) simp
    ultimately show "sint (fst (qi_async_sys_cpu_time_ns_win32 W v)) = ?n"
      by (simp add: win)
  qed
  have c: "os_calls (snd (qi_async_sys_cpu_time_ns_win32 W v)) = os_calls v @ [Call_GetProcessTimes]"
    by (simp add: win)
  have d: "fst (qi_async_sys_cpu_time_ns_posix P w) = tv_sec ts * 1000000000 + tv_nsec ts"
    by (simp add: posix)
  have e: "timespec_fits ts \<longrightarrow>
            sint (fst (qi_async_sys_cpu_time_ns_posix P w)) =
              sint (tv_sec ts) * 10 ^ 9 + sint (tv_nsec ts)"
    by (simp add: posix sint_timespec_ns)
  have f: "os_calls (snd (qi_async_sys_cpu_time_ns_posix P w)) =
           os_calls w @ [Call_clock_gettime CLOCK_PROCESS_CPUTIME_ID]"
    by (simp add: posix)
  from a b c d e f show ?thesis by (intro conjI)
qed

theorem cpu_time_conversion_witness:
  "sint (fst (qi_async_sys_cpu_time_ns_win32 scripted_win32 (start busy_times))) = 3000000000 \<and>
   sint (fst (qi_async_sys_cpu_time_ns_posix scripted_posix (start cpu_reading))) = 3000000500"
proof -
  let ?ft = "\<lparr>dwLowDateTime = 0, dwHighDateTime = 0\<rparr>"
  let ?kt = "\<lparr>dwLowDateTime = 20000000, dwHighDateTime = 0\<rparr>"
  let ?ut = "\<lparr>dwLowDateTime = 10000000, dwHighDateTime = 0\<rparr>"
  let ?ts = "\<lparr>tv_sec = 3, tv_nsec = 500\<rparr>"
  have times: "GetProcessTimes scripted_win32 (os_state (start busy_times)) =
      ((1, ?ft, ?ft, ?kt, ?ut), busy_times)"
    by (simp add: scripted_win32_def start_def busy_times_def)
  have ok: "(1 :: BOOL) \<noteq> 0" by simp
  have cpu: "clock_gettime scripted_posix CLOCK_PROCESS_CPUTIME_ID (os_state (start cpu_reading)) =
      ((0, ?ts), cpu_reading\<lparr>clock_readings := []\<rparr>)"
    by (simp add: scripted_posix_def start_def cpu_reading_def)
  have ticks: "(filetime_ticks ?kt + filetime_ticks ?ut) * 100 = 3000000000"
    by (simp add: filetime_ticks_def)
  have fits: "timespec_fits ?ts" by (simp add: timespec_fits_def)
  show ?thesis
    using cpu_time_conversion [OF times ok cpu] ticks fits by simp
qed

section \<open>Number of processors\<close>

text \<open>
  C7, as stated, fails. With a \<^verbatim>\<open>sysconf\<close> that answers \<open>0\<close>, which is not its
  error value \<open>-1\<close>, \<^verbatim>\<open>qi_async_sys_cpu_count\<close> on the POSIX path returns \<open>0\<close>:
  a result that is not the error result \<open>-1\<close> and is not \<open>\<ge> 1\<close>.
\<close>

theorem cpu_count_zero_counterexample:
  "fst (sysconf scripted_posix SC_NPROCESSORS_ONLN (posix_script0\<lparr>nprocs_reply := 0\<rparr>)) \<noteq> - 1 \<and>
   fst (qi_async_sys_cpu_count_posix scripted_posix (start (posix_script0\<lparr>nprocs_reply := 0\<rparr>))) = 0 \<and>
   fst (qi_async_sys_cpu_count_posix scripted_posix (start (posix_script0\<lparr>nprocs_reply := 0\<rparr>))) \<noteq> - 1 \<and>
   \<not> 1 \<le>s fst (qi_async_sys_cpu_count_posix scripted_posix (start (posix_script0\<lparr>nprocs_reply := 0\<rparr>)))"
  by (simp add: qi_async_sys_cpu_count_posix_def do_sysconf_def scripted_posix_def start_def
      word_sle_eq)

text \<open>
  C7, amended. \<^verbatim>\<open>qi_async_sys_cpu_count\<close> hands on what the operating system
  reports: on POSIX it returns \<open>-1\<close> when \<^verbatim>\<open>sysconf\<close> returns \<open>-1\<close>, and when
  \<^verbatim>\<open>sysconf\<close> reports a count from \<open>1\<close> to \<open>2^31 - 1\<close> it returns that count, which
  is \<open>\<ge> 1\<close>; on Windows, when \<^verbatim>\<open>dwNumberOfProcessors\<close> is from \<open>1\<close> to \<open>2^31 - 1\<close> it
  returns that count, which is \<open>\<ge> 1\<close>.
\<close>

theorem cpu_count_relays_os_count:
  assumes conf: "sysconf P SC_NPROCESSORS_ONLN (os_state w) = (n, s)"
    and info: "GetSystemInfo W (os_state v) = (d, s')"
  shows "(n = - 1 \<longrightarrow> fst (qi_async_sys_cpu_count_posix P w) = - 1) \<and>
         (1 \<le> sint n \<and> sint n < 2 ^ 31 \<longrightarrow>
            sint (fst (qi_async_sys_cpu_count_posix P w)) = sint n \<and>
            1 \<le>s fst (qi_async_sys_cpu_count_posix P w)) \<and>
         (1 \<le> uint d \<and> uint d < 2 ^ 31 \<longrightarrow>
            sint (fst (qi_async_sys_cpu_count_win32 W v)) = uint d \<and>
            1 \<le>s fst (qi_async_sys_cpu_count_win32 W v))"
proof -
  have posix: "fst (qi_async_sys_cpu_count_posix P w) = (if n = - 1 then - 1 else ucast n)"
    by (simp add: qi_async_sys_cpu_count_posix_def do_sysconf_def conf)
  have win: "fst (qi_async_sys_cpu_count_win32 W v) = d"
    by (simp add: qi_async_sys_cpu_count_win32_def do_GetSystemInfo_def info)
  have a: "n = - 1 \<longrightarrow> fst (qi_async_sys_cpu_count_posix P w) = - 1"
    by (simp add: posix)
  have b: "1 \<le> sint n \<and> sint n < 2 ^ 31 \<longrightarrow>
            sint (fst (qi_async_sys_cpu_count_posix P w)) = sint n \<and>
            1 \<le>s fst (qi_async_sys_cpu_count_posix P w)"
  proof
    assume r: "1 \<le> sint n \<and> sint n < 2 ^ 31"
    then have "n \<noteq> - 1" by auto
    then have res: "fst (qi_async_sys_cpu_count_posix P w) = ucast n" by (simp add: posix)
    have "(ucast n :: c_int) = scast n"
      by (rule fun_cong [OF down_cast_same]) (simp add: is_down)
    also have "\<dots> = word_of_int (sint n)"
      by (rule scast_eq)
    finally have cast: "(ucast n :: c_int) = word_of_int (sint n)" .
    have "sint (ucast n :: c_int) = sint (word_of_int (sint n) :: c_int)"
      by (simp only: cast)
    also have "\<dots> = sint n"
      by (rule sint_word_of_int_in_range) (use r in auto)
    finally have "sint (ucast n :: c_int) = sint n" .
    with r res show "sint (fst (qi_async_sys_cpu_count_posix P w)) = sint n \<and>
            1 \<le>s fst (qi_async_sys_cpu_count_posix P w)"
      by (simp add: word_sle_eq)
  qed
  have c: "1 \<le> uint d \<and> uint d < 2 ^ 31 \<longrightarrow>
            sint (fst (qi_async_sys_cpu_count_win32 W v)) = uint d \<and>
            1 \<le>s fst (qi_async_sys_cpu_count_win32 W v)"
  proof
    assume r: "1 \<le> uint d \<and> uint d < 2 ^ 31"
    then have "sint d = uint d" by (intro sint_eq_uint_below_half) simp
    with r show "sint (fst (qi_async_sys_cpu_count_win32 W v)) = uint d \<and>
            1 \<le>s fst (qi_async_sys_cpu_count_win32 W v)"
      by (simp add: win word_sle_eq)
  qed
  from a b c show ?thesis by (intro conjI)
qed

theorem cpu_count_relays_os_count_witness:
  "sint (fst (qi_async_sys_cpu_count_posix scripted_posix (start posix_script0))) = 4 \<and>
   1 \<le>s fst (qi_async_sys_cpu_count_posix scripted_posix (start posix_script0)) \<and>
   sint (fst (qi_async_sys_cpu_count_win32 scripted_win32 (start win32_script0))) = 4 \<and>
   1 \<le>s fst (qi_async_sys_cpu_count_win32 scripted_win32 (start win32_script0))"
proof -
  have conf: "sysconf scripted_posix SC_NPROCESSORS_ONLN (os_state (start posix_script0)) =
      (4, posix_script0)"
    by (simp add: scripted_posix_def start_def posix_script0_def)
  have info: "GetSystemInfo scripted_win32 (os_state (start win32_script0)) = (4, win32_script0)"
    by (simp add: scripted_win32_def start_def win32_script0_def)
  have n: "1 \<le> sint (4 :: c_long) \<and> sint (4 :: c_long) < 2 ^ 31" by simp
  have d: "1 \<le> uint (4 :: DWORD) \<and> uint (4 :: DWORD) < 2 ^ 31" by simp
  show ?thesis
    using cpu_count_relays_os_count [OF conf info] n d by simp
qed

section \<open>Yield\<close>

text \<open>
  C8. \<^verbatim>\<open>qi_async_sys_yield\<close> on the POSIX path makes one call of \<^verbatim>\<open>sched_yield\<close>
  and returns the error result \<open>-1\<close> exactly when that call returned \<open>-1\<close>, and \<open>0\<close>
  otherwise; on the Windows path it makes one call of \<^verbatim>\<open>SwitchToThread\<close> and always
  returns \<open>0\<close>.
\<close>

theorem yield_fails_iff_primitive_fails:
  "fst (qi_async_sys_yield_posix P w) =
     (if fst (sched_yield P (os_state w)) = - 1 then - 1 else 0) \<and>
   (fst (qi_async_sys_yield_posix P w) = - 1 \<longleftrightarrow> fst (sched_yield P (os_state w)) = - 1) \<and>
   os_calls (snd (qi_async_sys_yield_posix P w)) = os_calls w @ [Call_sched_yield] \<and>
   fst (qi_async_sys_yield_win32 W v) = 0 \<and>
   os_calls (snd (qi_async_sys_yield_win32 W v)) = os_calls v @ [Call_SwitchToThread]"
proof -
  obtain rc s where y: "sched_yield P (os_state w) = (rc, s)"
    by (cases "sched_yield P (os_state w)")
  obtain b s' where sw: "SwitchToThread W (os_state v) = (b, s')"
    by (cases "SwitchToThread W (os_state v)")
  have posix: "qi_async_sys_yield_posix P w =
      (if rc = - 1 then - 1 else 0, w\<lparr>os_state := s, os_calls := os_calls w @ [Call_sched_yield]\<rparr>)"
    by (simp add: qi_async_sys_yield_posix_def do_sched_yield_def y)
  have win: "qi_async_sys_yield_win32 W v =
      (0, v\<lparr>os_state := s', os_calls := os_calls v @ [Call_SwitchToThread]\<rparr>)"
    by (simp add: qi_async_sys_yield_win32_def do_SwitchToThread_def sw)
  show ?thesis by (simp add: posix win y)
qed

theorem yield_fails_iff_primitive_fails_witness:
  "fst (qi_async_sys_yield_posix scripted_posix (start (posix_script0\<lparr>yield_rc := - 1\<rparr>))) = - 1 \<and>
   fst (qi_async_sys_yield_posix scripted_posix (start posix_script0)) = 0 \<and>
   fst (qi_async_sys_yield_win32 scripted_win32 (start win32_script0)) = 0"
proof -
  have fails: "fst (sched_yield scripted_posix
      (os_state (start (posix_script0\<lparr>yield_rc := - 1\<rparr>)))) = - 1"
    by (simp add: scripted_posix_def start_def)
  have works: "fst (sched_yield scripted_posix (os_state (start posix_script0))) = 0"
    by (simp add: scripted_posix_def start_def posix_script0_def)
  show ?thesis
    using yield_fails_iff_primitive_fails
        [of scripted_posix "start (posix_script0\<lparr>yield_rc := - 1\<rparr>)" scripted_win32
          "start win32_script0"]
      yield_fails_iff_primitive_fails
        [of scripted_posix "start posix_script0" scripted_win32 "start win32_script0"]
      fails works
    by simp
qed

section \<open>Monotonic time on the Windows path\<close>

lemma counter_product_below:
  fixes q :: int64_t
  assumes "2 ^ 63 div 10 ^ 9 < sint q"
  shows "sint (q * 1000000000) < sint q * 10 ^ 9"
proof -
  have "(9223372037 :: int) \<le> sint q" using assms by simp
  then have "9223372037 * 10 ^ 9 \<le> sint q * 10 ^ 9" by (intro mult_right_mono) auto
  moreover have "sint (q * 1000000000) < 2 ^ 63" using sint_lt [of "q * 1000000000"] by simp
  ultimately show ?thesis by simp
qed

text \<open>
  C10. On the Windows path, when both queries succeed the result is the signed 64-bit
  quotient of \<open>counter * 1000000000\<close> by the frequency. For every counter above
  \<open>2^63 / 10^9\<close> the product wraps modulo \<open>2^64\<close>: its signed value is
  \<open>(counter * 10^9 + 2^63) mod 2^64 - 2^63\<close>, which is less than \<open>counter * 10^9\<close>.
  The returned time can then be negative and less than an earlier one although the
  counter grew: at ten million ticks a second, the counter \<open>9223372036\<close> gives
  \<open>922337203600\<close> and the next counter \<open>9223372037\<close> gives \<open>-922337203670\<close>.
\<close>

theorem win32_monotonic_product_wraps:
  assumes freq: "QueryPerformanceFrequency W (os_state v) = ((ok_f, f), s_f)"
    and cnt: "QueryPerformanceCounter W s_f = ((ok_q, q), s_q)"
    and ok: "ok_f \<noteq> 0" "ok_q \<noteq> 0"
    and big: "2 ^ 63 div 10 ^ 9 < sint q"
  shows "fst (qi_async_sys_monotonic_time_ns_win32 W v) = c_div_checked (q * 1000000000) f \<and>
         sint (q * 1000000000) = (sint q * 10 ^ 9 + 2 ^ 63) mod 2 ^ 64 - 2 ^ 63 \<and>
         sint (q * 1000000000) < sint q * 10 ^ 9 \<and>
         fst (qi_async_sys_monotonic_time_ns_win32 scripted_win32 (start wrapped_counters)) =
           Some 922337203600 \<and>
         fst (qi_async_sys_monotonic_time_ns_win32 scripted_win32
                (snd (qi_async_sys_monotonic_time_ns_win32 scripted_win32
                  (start wrapped_counters)))) =
           Some (- 922337203670) \<and>
         (- 922337203670 :: int64_t) <s 0 \<and>
         (- 922337203670 :: int64_t) <s 922337203600"
proof -
  have a: "fst (qi_async_sys_monotonic_time_ns_win32 W v) = c_div_checked (q * 1000000000) f"
    using ok
    by (simp add: qi_async_sys_monotonic_time_ns_win32_def do_QueryPerformanceFrequency_def
        do_QueryPerformanceCounter_def freq cnt)
  have b: "sint (q * 1000000000) = (sint q * 10 ^ 9 + 2 ^ 63) mod 2 ^ 64 - 2 ^ 63"
    using int_word_sint [where 'a = 64 and x = "sint q * 10 ^ 9"] by simp
  have c: "sint (q * 1000000000) < sint q * 10 ^ 9"
    by (rule counter_product_below [OF big])
  have d: "fst (qi_async_sys_monotonic_time_ns_win32 scripted_win32 (start wrapped_counters)) =
           Some 922337203600"
    by (simp add: qi_async_sys_monotonic_time_ns_win32_def do_QueryPerformanceFrequency_def
      do_QueryPerformanceCounter_def scripted_win32_def start_def wrapped_counters_def
      win32_script0_def c_div_checked_def c_div_def signed_divide_int_def)
  have e: "fst (qi_async_sys_monotonic_time_ns_win32 scripted_win32
                (snd (qi_async_sys_monotonic_time_ns_win32 scripted_win32
                  (start wrapped_counters)))) =
           Some (- 922337203670)"
    by (simp add: qi_async_sys_monotonic_time_ns_win32_def do_QueryPerformanceFrequency_def
      do_QueryPerformanceCounter_def scripted_win32_def start_def wrapped_counters_def
      win32_script0_def c_div_checked_def c_div_def signed_divide_int_def)
  have f: "(- 922337203670 :: int64_t) <s 0" by (simp add: word_sless_alt)
  have g: "(- 922337203670 :: int64_t) <s 922337203600" by (simp add: word_sless_alt)
  from a b c d e f g show ?thesis by (intro conjI)
qed

theorem win32_monotonic_product_wraps_witness:
  "2 ^ 63 div 10 ^ 9 < sint (9223372037 :: int64_t) \<and>
   fst (qi_async_sys_monotonic_time_ns_win32 scripted_win32 (start wrapped_counter)) =
     c_div_checked (9223372037 * 1000000000) 10000000 \<and>
   sint ((9223372037 :: int64_t) * 1000000000) < 9223372037 * 10 ^ 9"
proof -
  have freq: "QueryPerformanceFrequency scripted_win32 (os_state (start wrapped_counter)) =
      ((1, 10000000), wrapped_counter)"
    by (simp add: scripted_win32_def start_def wrapped_counter_def win32_script0_def)
  have cnt: "QueryPerformanceCounter scripted_win32 wrapped_counter =
      ((1, 9223372037), wrapped_counter\<lparr>counter_readings := []\<rparr>)"
    by (simp add: scripted_win32_def wrapped_counter_def)
  have ok: "(1 :: BOOL) \<noteq> 0" by simp
  have big: "2 ^ 63 div 10 ^ 9 < sint (9223372037 :: int64_t)" by simp
  from win32_monotonic_product_wraps [OF freq cnt ok ok big]
  have "fst (qi_async_sys_monotonic_time_ns_win32 scripted_win32 (start wrapped_counter)) =
      c_div_checked (9223372037 * 1000000000) 10000000"
    and "sint ((9223372037 :: int64_t) * 1000000000) < sint (9223372037 :: int64_t) * 10 ^ 9"
    by blast+
  with big show ?thesis by simp
qed

end
